theory Spec2Isabelle
  imports Main
begin

text \<open>
  A model of the batch workflow of the scripts \<open>ai_explain.py\<close> and \<open>ai_yes_no.py\<close>: the
  Sentence Loader, the Prompt Builder, the Retrying API Client, the Batch Dispatcher, the
  Result Persister with its CSV and text sinks, and \<open>main\<close> of \<open>ai_explain.py\<close>.  Where
  the two scripts have a function of the same name and of different text, the model has
  one constant for each, named \<open>explain_...\<close> and \<open>yes_no_...\<close>.  Files are modelled by
  their content (a CSV file by the rows \<open>csv.reader\<close> yields), the remote service and the
  operator by the values they give, and exceptions by the left summand of a sum type.
  The definitions come first, the properties after them.
\<close>

section \<open>Python strings\<close>

text \<open>
  A Python \<open>str\<close> is a sequence of Unicode code points, so a string is modelled as the
  list of its code points.  The scripts handle Chinese text: the ideographic full stop
  is the single code point U+3002, the ideographic space U+3000 is white space for
  \<open>str.strip\<close>, and so on.  ASCII pieces are written as HOL string literals and
  converted with \<open>ascii\<close>.
\<close>

type_synonym pystr = "nat list"

definition ascii :: "string \<Rightarrow> pystr" where
  "ascii s = map of_char s"

text \<open>
  \<open>str.isspace\<close> of one character; \<open>str.strip()\<close> and the regular expression class
  \<open>\s\<close> on \<open>str\<close> patterns use the same table (CPython's
  \<open>_PyUnicode_IsWhitespace\<close>).
\<close>

definition isspace :: "nat \<Rightarrow> bool" where
  "isspace c =
     ((0x09 \<le> c \<and> c \<le> 0x0D) \<or> (0x1C \<le> c \<and> c \<le> 0x20) \<or> c = 0x85 \<or> c = 0xA0 \<or>
      c = 0x1680 \<or> (0x2000 \<le> c \<and> c \<le> 0x200A) \<or> c = 0x2028 \<or> c = 0x2029 \<or>
      c = 0x202F \<or> c = 0x205F \<or> c = 0x3000)"

definition lstrip :: "pystr \<Rightarrow> pystr" where
  "lstrip s = dropWhile isspace s"

definition rstrip :: "pystr \<Rightarrow> pystr" where
  "rstrip s = rev (dropWhile isspace (rev s))"

definition strip :: "pystr \<Rightarrow> pystr" where
  "strip s = rstrip (lstrip s)"

definition endswith :: "pystr \<Rightarrow> pystr \<Rightarrow> bool" where
  "endswith s suffix =
     (length suffix \<le> length s \<and> drop (length s - length suffix) s = suffix)"

text \<open>\<open>s.endswith(t)\<close> for a tuple \<open>t\<close> of suffixes.\<close>

definition endswith_any :: "pystr \<Rightarrow> pystr list \<Rightarrow> bool" where
  "endswith_any s suffixes = list_ex (endswith s) suffixes"

text \<open>\<open>str(n)\<close> for a non-negative integer: its decimal digits.\<close>

fun str_of_nat :: "nat \<Rightarrow> pystr" where
  "str_of_nat n = (if n < 10 then [0x30 + n] else str_of_nat (n div 10) @ [0x30 + n mod 10])"

declare str_of_nat.simps [simp del]

section \<open>Errors\<close>

text \<open>
  The exceptions the modelled code can raise.  \<open>RemoteError\<close> stands for an exception of
  the remote client that is not a \<open>ServerError\<close>; \<open>Unmodelled\<close> marks a use of a library
  feature that this development does not describe (see \<open>format\<close>).
\<close>

datatype error =
    FileNotFoundError
  | IndexError
  | ValueError
  | EOFError
  | RemoteError pystr
  | Unmodelled

section \<open>Sentence Loader\<close>

text \<open>
  A CSV file is modelled by what \<open>csv.reader\<close> yields for it: a list of rows, each a list
  of cells (a blank line yields the empty row).  A file that does not exist is \<open>None\<close>.
\<close>

type_synonym row = "pystr list"
type_synonym table = "row list"

text \<open>The tuple of recognised terminators of \<open>load_sentences_from_csv\<close>:
  U+3002, full stop, U+FF01, exclamation mark, U+FF1F, question mark.\<close>

definition terminators :: "pystr list" where
  "terminators = [[0x3002], ascii ''.'', [0xFF01], ascii ''!'', [0xFF1F], ascii ''?'']"

text \<open>
  The loop \<open>for idx, row in enumerate(reader, start=1)\<close> of \<open>load_sentences_from_csv\<close>
  (the same text in \<open>ai_explain.py\<close> and \<open>ai_yes_no.py\<close>); \<open>idx\<close> is the counter of
  \<open>enumerate\<close>.
\<close>

fun load_rows :: "nat \<Rightarrow> table \<Rightarrow> (nat \<times> pystr) list" where
  "load_rows idx [] = []"
| "load_rows idx (row # rest) =
     (case row of
        [] \<Rightarrow> load_rows (Suc idx) rest
      | cell # _ \<Rightarrow>
          if strip cell \<noteq> [] then
            (let sentence = strip cell;
                 sentence = (if \<not> endswith_any sentence terminators
                             then sentence @ [0x3002] else sentence)
             in (idx, sentence) # load_rows (Suc idx) rest)
          else load_rows (Suc idx) rest)"

text \<open>\<open>next(reader, None)\<close> drops the header row when there is one.\<close>

definition load_sentences_from_csv :: "table option \<Rightarrow> error + (nat \<times> pystr) list" where
  "load_sentences_from_csv file =
     (case file of
        None \<Rightarrow> Inl FileNotFoundError
      | Some rows \<Rightarrow> Inr (load_rows 1 (drop 1 rows)))"

section \<open>More string operations\<close>

text \<open>\<open>s.split('\n')\<close>: the pieces between line feeds; never the empty list.\<close>

fun split_nl :: "pystr \<Rightarrow> pystr list" where
  "split_nl [] = [[]]"
| "split_nl (c # cs) =
     (if c = 0x0A then [] # split_nl cs
      else (case split_nl cs of
              [] \<Rightarrow> [[c]]
            | piece # pieces \<Rightarrow> (c # piece) # pieces))"

text \<open>\<open>sep.join(pieces)\<close>.\<close>

fun join :: "pystr \<Rightarrow> pystr list \<Rightarrow> pystr" where
  "join sep [] = []"
| "join sep [piece] = piece"
| "join sep (piece # pieces) = piece @ sep @ join sep pieces"

text \<open>
  Decimal digits.  The regular expression class \<open>\d\<close> on \<open>str\<close> patterns, \<open>int\<close> and the
  field names of \<open>str.format\<close> all read a character as a decimal digit through the
  Unicode database (general category Nd).  The digits come in runs of ten, 0 to 9; the
  list holds the zero of each run (Unicode 14, the database of CPython 3.11).
  CPython's configurable limit on the length of a decimal string converted to or from an
  \<open>int\<close> (4300 digits by default) is not modelled: integers convert at any size.
\<close>

definition decimal_zeros :: "nat list" where
  "decimal_zeros =
     [0x30, 0x660, 0x6F0, 0x7C0, 0x966, 0x9E6, 0xA66, 0xAE6, 0xB66, 0xBE6, 0xC66, 0xCE6,
      0xD66, 0xDE6, 0xE50, 0xED0, 0xF20, 0x1040, 0x1090, 0x17E0, 0x1810, 0x1946, 0x19D0,
      0x1A80, 0x1A90, 0x1B50, 0x1BB0, 0x1C40, 0x1C50, 0xA620, 0xA8D0, 0xA900, 0xA9D0,
      0xA9F0, 0xAA50, 0xABF0, 0xFF10, 0x104A0, 0x10D30, 0x11066, 0x110F0, 0x11136,
      0x111D0, 0x112F0, 0x11450, 0x114D0, 0x11650, 0x116C0, 0x11730, 0x118E0, 0x11950,
      0x11C50, 0x11D50, 0x11DA0, 0x16A60, 0x16AC0, 0x16B50, 0x1D7CE, 0x1D7D8, 0x1D7E2,
      0x1D7EC, 0x1D7F6, 0x1E140, 0x1E2F0, 0x1E950, 0x1FBF0]"

definition decimal_value :: "nat \<Rightarrow> nat option" where
  "decimal_value c =
     map_option (\<lambda>zero. c - zero) (find (\<lambda>zero. zero \<le> c \<and> c < zero + 10) decimal_zeros)"

definition isdecimal :: "nat \<Rightarrow> bool" where
  "isdecimal c = (decimal_value c \<noteq> None)"

text \<open>The number a non-empty string of decimal digits denotes (\<open>int(s)\<close> for such a
  string; a character without a decimal value, which \<open>int\<close> would refuse, is passed over:
  the function is applied to strings of digits only).\<close>

definition int_of_digits :: "pystr \<Rightarrow> nat" where
  "int_of_digits ds =
     foldl (\<lambda>acc d. case decimal_value d of Some v \<Rightarrow> 10 * acc + v | None \<Rightarrow> acc) 0 ds"

section \<open>Prompt Builder\<close>

text \<open>
  \<open>template.format(sentence)\<close> with one positional argument that is a \<open>str\<close>.  The format
  string is read from left to right: \<open>{{\<close> and \<open>}}\<close> are literal braces, a single \<open>}\<close>
  raises \<open>ValueError\<close>, \<open>{\<close> opens a replacement field that runs to the next \<open>}\<close>
  (\<open>ValueError\<close> when there is none).  A field with an empty name takes the next
  automatic index, a field whose name is a decimal number takes that index; switching
  between the two raises \<open>ValueError\<close>, a number beyond \<open>sys.maxsize\<close> (64 bit) raises
  \<open>ValueError\<close>, and every index but 0 raises \<open>IndexError\<close>, there being one argument.
  The field is replaced by the argument.  Any other field (a keyword or attribute name,
  an index in brackets, a conversion \<open>!r\<close>, a format specification after \<open>:\<close>) is outside
  this model and yields \<open>Unmodelled\<close>.
\<close>

datatype numbering = Unnumbered | Manual | Automatic nat

function format_from :: "numbering \<Rightarrow> pystr \<Rightarrow> pystr \<Rightarrow> error + pystr" where
  "format_from st arg [] = Inr []"
| "format_from st arg (c # cs) =
     (if c = 0x7B then
        (case cs of
           [] \<Rightarrow> Inl ValueError
         | d # ds \<Rightarrow>
             if d = 0x7B then
               (case format_from st arg ds of Inl e \<Rightarrow> Inl e | Inr out \<Rightarrow> Inr (0x7B # out))
             else if 0x7D \<notin> set cs then Inl ValueError
             else
               (let field = takeWhile (\<lambda>x. x \<noteq> 0x7D) cs;
                    rest = drop 1 (dropWhile (\<lambda>x. x \<noteq> 0x7D) cs)
                in if field = [] then
                     (case st of
                        Manual \<Rightarrow> Inl ValueError
                      | Unnumbered \<Rightarrow>
                          (case format_from (Automatic 1) arg rest of
                             Inl e \<Rightarrow> Inl e | Inr out \<Rightarrow> Inr (arg @ out))
                      | Automatic n \<Rightarrow>
                          if n = 0 then
                            (case format_from (Automatic (Suc n)) arg rest of
                               Inl e \<Rightarrow> Inl e | Inr out \<Rightarrow> Inr (arg @ out))
                          else Inl IndexError)
                   else if list_all isdecimal field then
                     (if int_of_digits field > 9223372036854775807 then Inl ValueError
                      else
                        (case st of
                           Automatic n \<Rightarrow> Inl ValueError
                         | _ \<Rightarrow>
                             if int_of_digits field = 0 then
                               (case format_from Manual arg rest of
                                  Inl e \<Rightarrow> Inl e | Inr out \<Rightarrow> Inr (arg @ out))
                             else Inl IndexError))
                   else Inl Unmodelled))
      else if c = 0x7D then
        (case cs of
           [] \<Rightarrow> Inl ValueError
         | d # ds \<Rightarrow>
             if d = 0x7D then
               (case format_from st arg ds of Inl e \<Rightarrow> Inl e | Inr out \<Rightarrow> Inr (0x7D # out))
             else Inl ValueError)
      else
        (case format_from st arg cs of Inl e \<Rightarrow> Inl e | Inr out \<Rightarrow> Inr (c # out)))"
  by pat_completeness auto
termination
  by (relation "measure (\<lambda>(st, arg, template). length template)")
     (auto simp add: less_Suc_eq_le
        intro: le_SucI le_trans [OF diff_le_self length_dropWhile_le])

definition format :: "pystr \<Rightarrow> pystr \<Rightarrow> error + pystr" where
  "format template arg = format_from Unnumbered arg template"

text \<open>
  \<open>build_prompts\<close> (the same text in both scripts): the list comprehension formats the
  sentences in order, and the first exception leaves it.
\<close>

fun build_prompts :: "pystr \<Rightarrow> (nat \<times> pystr) list \<Rightarrow> error + pystr list" where
  "build_prompts template [] = Inr []"
| "build_prompts template ((idx, sentence) # rest) =
     (case format template sentence of
        Inl e \<Rightarrow> Inl e
      | Inr prompt \<Rightarrow>
          (case build_prompts template rest of
             Inl e \<Rightarrow> Inl e
           | Inr prompts \<Rightarrow> Inr (prompt # prompts)))"

section \<open>Retrying API Client\<close>

text \<open>
  The remote service is an oracle: \<open>api prompt k\<close> is what \<open>call_gemini_api(prompt, api_key)\<close>
  does at attempt \<open>k\<close> (counted from 0) of one call of \<open>process_prompt_with_retry\<close>.  It
  returns \<open>response.text\<close>, which may be \<open>None\<close>, or raises a \<open>ServerError\<close>, or raises
  another exception.  The API key only reaches the remote service and is part of the
  oracle.
\<close>

datatype outcome =
    Returns "pystr option"
  | Raises_ServerError pystr
  | Raises_other pystr

type_synonym remote = "pystr \<Rightarrow> nat \<Rightarrow> outcome"

text \<open>
  What a call of \<open>process_prompt_with_retry\<close> does besides returning, in order: the
  jitter sleep \<open>time.sleep(random.uniform(1, 2))\<close>, each call of the remote service, each
  printed line \<open>[Retry i+1/retries] ... Retrying in delay seconds...\<close> with its text
  fields, each \<open>time.sleep(delay)\<close>, and the line \<open>[Error] Failed after multiple retries\<close>
  of \<open>ai_yes_no.py\<close>.
\<close>

datatype event =
    Sleep_jitter
  | Api_call pystr
  | Print_retry nat int pystr int
  | Sleep int
  | Print_failed pystr

text \<open>
  The loop \<open>for i in range(retries)\<close> over the values of \<open>i\<close> still to come.  The result
  is \<open>None\<close> when the loop runs out, \<open>Some (Inr text)\<close> when the \<open>return\<close> inside \<open>try\<close> is
  reached, and \<open>Some (Inl e)\<close> when an exception that is not a \<open>ServerError\<close> leaves the
  function.
\<close>

fun attempts ::
  "remote \<Rightarrow> pystr \<Rightarrow> int \<Rightarrow> int \<Rightarrow> nat list \<Rightarrow> event list \<times> (error + pystr option) option"
where
  "attempts api prompt retries delay [] = ([], None)"
| "attempts api prompt retries delay (i # rest) =
     (case api prompt i of
        Returns text \<Rightarrow> ([Api_call prompt], Some (Inr text))
      | Raises_ServerError e \<Rightarrow>
          (let (events, result) = attempts api prompt retries delay rest
           in (Api_call prompt # Print_retry (i + 1) retries e delay # Sleep delay # events,
               result))
      | Raises_other e \<Rightarrow> ([Api_call prompt], Some (Inl (RemoteError e))))"

text \<open>\<open>process_prompt_with_retry\<close> of \<open>ai_explain.py\<close>; \<open>range(retries)\<close> is empty for
  \<open>retries \<le> 0\<close>.\<close>

definition explain_process_prompt_with_retry ::
  "remote \<Rightarrow> pystr \<Rightarrow> int \<Rightarrow> int \<Rightarrow> event list \<times> (error + pystr option)"
where
  "explain_process_prompt_with_retry api prompt retries delay =
     (let (events, result) = attempts api prompt retries delay [0..<nat retries]
      in (Sleep_jitter # events,
          case result of None \<Rightarrow> Inr None | Some r \<Rightarrow> r))"






section \<open>Cleaning and parsing a response\<close>

definition startswith :: "pystr \<Rightarrow> pystr \<Rightarrow> bool" where
  "startswith s p = (take (length p) s = p)"

text \<open>
  The three patterns of \<open>clean_formatting\<close> have the shape \<open>(d1|d2)(.*?)\1\<close> (the third
  has a single delimiter, the backquote): an opening delimiter, the shortest run of
  characters other than the line feed, and the same delimiter again.  \<open>find_close d s\<close>
  matches \<open>(.*?)\1\<close> at the start of \<open>s\<close> for the delimiter \<open>d\<close> and returns group 2 and
  the text after the match.
\<close>

fun find_close :: "pystr \<Rightarrow> pystr \<Rightarrow> (pystr \<times> pystr) option" where
  "find_close d [] = (if d = [] then Some ([], []) else None)"
| "find_close d (c # cs) =
     (if startswith (c # cs) d then Some ([], drop (length d) (c # cs))
      else if c = 0x0A then None
      else (case find_close d cs of
              None \<Rightarrow> None
            | Some (inner, rest) \<Rightarrow> Some (c # inner, rest)))"

text \<open>The whole pattern at the start of \<open>s\<close>, the alternatives tried in order.\<close>

fun match_delimited :: "pystr list \<Rightarrow> pystr \<Rightarrow> (pystr \<times> pystr) option" where
  "match_delimited [] s = None"
| "match_delimited (d # ds) s =
     (if startswith s d then
        (case find_close d (drop (length d) s) of
           Some m \<Rightarrow> Some m
         | None \<Rightarrow> match_delimited ds s)
      else match_delimited ds s)"

text \<open>
  \<open>re.sub(pattern, r'\2', text)\<close>: from left to right, a match is replaced by its group 2
  and the scan goes on after it; where the pattern does not match, the character is
  kept.  The delimiters of the three patterns are not empty, so a match is never empty
  (lemma \<open>match_delimited_shorter\<close>); the test on the lengths holds for every match and
  is there for the recursion only.
\<close>

function sub_delimited :: "pystr list \<Rightarrow> pystr \<Rightarrow> pystr" where
  "sub_delimited ds [] = []"
| "sub_delimited ds (c # cs) =
     (case match_delimited ds (c # cs) of
        None \<Rightarrow> c # sub_delimited ds cs
      | Some (inner, rest) \<Rightarrow>
          if length rest \<le> length cs then inner @ sub_delimited ds rest
          else c # sub_delimited ds cs)"
  by pat_completeness auto
termination
  by (relation "measure (\<lambda>(ds, s). length s)") auto

definition clean_formatting :: "pystr \<Rightarrow> pystr" where
  "clean_formatting text =
     (let text = sub_delimited [ascii ''**'', ascii ''__''] text;
          text = sub_delimited [ascii ''*'', ascii ''_''] text;
          text = sub_delimited [ascii [CHR 0x60]] text
      in text)"

text \<open>\<open>split_result_lines\<close> of \<open>ai_explain.py\<close>.\<close>

definition split_result_lines :: "pystr \<Rightarrow> pystr option \<times> pystr option" where
  "split_result_lines text =
     (let lines = map strip (filter (\<lambda>line. strip line \<noteq> []) (split_nl (strip text)))
      in case lines of
           [] \<Rightarrow> (None, None)
         | judgment # others \<Rightarrow>
             (Some judgment,
              Some (if length lines > 1 then join [0x0A] others else [])))"

section \<open>Batch Dispatcher\<close>

text \<open>
  \<open>process_all_prompts\<close> submits one task per prompt and handles the futures in the order
  in which they complete.  That order is a parameter: the list of the task numbers as
  \<open>as_completed\<close> yields them.  \<open>outs i\<close> is what \<open>future.result()\<close> does for task \<open>i\<close>
  (\<open>Inl\<close>: it raises).  The lines printed by the dispatcher and the progress bar are left
  out.

  In \<open>ai_explain.py\<close> the slot is written only after \<open>clean_formatting\<close> has returned:
  \<open>clean_formatting(None)\<close> raises \<open>TypeError\<close> inside \<open>re.sub\<close>, which the handler catches
  as it catches an exception of the task, and the slot keeps its \<open>None\<close>.
\<close>

fun explain_collect ::
  "(nat \<Rightarrow> error + pystr option) \<Rightarrow> nat list \<Rightarrow> pystr option list \<Rightarrow> pystr option list"
where
  "explain_collect outs [] results = results"
| "explain_collect outs (i # order) results =
     explain_collect outs order
       (case outs i of
          Inr (Some text) \<Rightarrow> results[i := Some (clean_formatting text)]
        | Inr None \<Rightarrow> results
        | Inl e \<Rightarrow> results)"

definition explain_process_all_prompts ::
  "(nat \<Rightarrow> remote) \<Rightarrow> nat list \<Rightarrow> pystr list \<Rightarrow> pystr option list"
where
  "explain_process_all_prompts apis order prompts =
     explain_collect
       (\<lambda>i. snd (explain_process_prompt_with_retry (apis i) (prompts ! i) 3 5))
       order (replicate (length prompts) None)"



section \<open>Result Persister: the CSV sink\<close>

text \<open>The column names of \<open>ai_explain.py\<close>: \<open>ai\<close> U+5224 U+65AD (the judgment) and
  \<open>ai\<close> U+7406 U+89E3 (the explanation).\<close>

definition col_judgment :: pystr where
  "col_judgment = ascii ''ai'' @ [0x5224, 0x65AD]"

definition col_explanation :: pystr where
  "col_explanation = ascii ''ai'' @ [0x7406, 0x89E3]"

text \<open>\<open>xs.index(x)\<close> for an \<open>x\<close> that occurs in \<open>xs\<close>: the position of its first occurrence.
  Both uses follow the \<open>append\<close> that makes \<open>x\<close> occur.\<close>

definition index_of :: "'a \<Rightarrow> 'a list \<Rightarrow> nat" where
  "index_of x xs = length (takeWhile (\<lambda>y. y \<noteq> x) xs)"

text \<open>\<open>while len(row) < width: row.append("")\<close>.\<close>

definition pad_row :: "nat \<Rightarrow> row \<Rightarrow> row" where
  "pad_row width row = row @ replicate (width - length row) []"

definition ensure_columns :: "row \<Rightarrow> row" where
  "ensure_columns header =
     (let header = (if col_judgment \<notin> set header then header @ [col_judgment] else header);
          header = (if col_explanation \<notin> set header then header @ [col_explanation]
                    else header)
      in header)"

text \<open>\<open>x or ""\<close> for an optional string.\<close>

definition or_empty :: "pystr option \<Rightarrow> pystr" where
  "or_empty x = (case x of None \<Rightarrow> [] | Some s \<Rightarrow> s)"

text \<open>
  The loop of \<open>write_results_to_csv\<close> in \<open>ai_explain.py\<close>; \<open>row_index\<close> is \<open>offset + i\<close>.
  \<open>if result:\<close> passes over \<open>None\<close> and the empty string.  \<open>data_rows[row_index]\<close> raises
  \<open>IndexError\<close> when the table has no such row; the file is then left as it was, since it
  is written after the loop.
\<close>

fun explain_write_rows :: "row \<Rightarrow> nat \<Rightarrow> pystr option list \<Rightarrow> table \<Rightarrow> error + table" where
  "explain_write_rows header row_index [] data_rows = Inr data_rows"
| "explain_write_rows header row_index (result # results) data_rows =
     (case result of
        None \<Rightarrow> explain_write_rows header (Suc row_index) results data_rows
      | Some text \<Rightarrow>
          if text = [] then explain_write_rows header (Suc row_index) results data_rows
          else if row_index < length data_rows then
            (let (judgment, explanation) = split_result_lines text;
                 row = pad_row (length header) (data_rows ! row_index);
                 row = row[index_of col_judgment header := or_empty judgment];
                 row = row[index_of col_explanation header := or_empty explanation]
             in explain_write_rows header (Suc row_index) results
                  (data_rows[row_index := row]))
          else Inl IndexError)"

text \<open>
  \<open>write_results_to_csv(csv_path, results, offset)\<close> of \<open>ai_explain.py\<close>, from the file
  before to the file after; \<open>Inl\<close> when an exception leaves the function, the file
  unchanged.  \<open>reader[0]\<close> raises \<open>IndexError\<close> on a file without rows.
\<close>

definition explain_write_results_to_csv ::
  "table option \<Rightarrow> pystr option list \<Rightarrow> nat \<Rightarrow> error + table"
where
  "explain_write_results_to_csv file results offset =
     (case file of
        None \<Rightarrow> Inl FileNotFoundError
      | Some [] \<Rightarrow> Inl IndexError
      | Some (header # data_rows) \<Rightarrow>
          (let header = ensure_columns header
           in case explain_write_rows header offset results data_rows of
                Inl e \<Rightarrow> Inl e
              | Inr data_rows \<Rightarrow> Inr (header # data_rows)))"






section \<open>Result Persister: the text logs\<close>









section \<open>Reading the failure log\<close>

text \<open>
  \<open>for line in f\<close> on a file opened for reading in text mode: a line ends at a line feed,
  at a carriage return, or at a carriage return followed by a line feed, each of which
  is handed over as a line feed (universal newlines); what follows the last line end,
  if not empty, is a last line.  \<open>current\<close> is the line read so far.
\<close>

fun file_lines :: "pystr \<Rightarrow> pystr \<Rightarrow> pystr list" where
  "file_lines current [] = (if current = [] then [] else [current])"
| "file_lines current (c # cs) =
     (if c = 0x0A then (current @ [0x0A]) # file_lines [] cs
      else if c = 0x0D then
        (case cs of
           [] \<Rightarrow> [current @ [0x0A]]
         | d # ds \<Rightarrow>
             if d = 0x0A then (current @ [0x0A]) # file_lines [] ds
             else (current @ [0x0A]) # file_lines [] cs)
      else file_lines (current @ [c]) cs)"




text \<open>The lines of a response that count: each piece trimmed, the blank ones dropped.\<close>

definition nonblank :: "pystr list \<Rightarrow> pystr list" where
  "nonblank pieces = filter (\<lambda>line. line \<noteq> []) (map strip pieces)"

section \<open>Remote services used in examples\<close>

text \<open>A remote service that raises \<open>ServerError\<close> (with the text \<open>503\<close>) at every attempt,
  and one that returns the given text at the first attempt.\<close>

definition always_server_error :: remote where
  "always_server_error prompt k = Raises_ServerError (ascii ''503'')"

definition answers_with :: "pystr \<Rightarrow> remote" where
  "answers_with reply prompt k = Returns (Some reply)"



section \<open>The example scenario\<close>


definition scenario_template :: pystr where
  "scenario_template = [0x5224, 0x65AD, 0xFF1A] @ ascii ''{0}''"

definition scenario_sentences :: "(nat \<times> pystr) list" where
  "scenario_sentences =
     [(1, [0x5929, 0x6C14, 0x5F88, 0x597D, 0x3002]), (2, [0x660E, 0x5929, 0x2E])]"



section \<open>Interactive Controller: \<open>main\<close> of \<open>ai_explain.py\<close>\<close>

text \<open>
  \<open>load_prompt_template\<close>: the first line of the template file, trimmed.
\<close>

definition load_prompt_template :: "pystr option \<Rightarrow> error + pystr" where
  "load_prompt_template file =
     (case file of
        None \<Rightarrow> Inl FileNotFoundError
      | Some content \<Rightarrow>
          (case file_lines [] content of
             [] \<Rightarrow> Inr (strip [])
           | line # _ \<Rightarrow> Inr (strip line)))"

text \<open>\<open>answer.lower() == 'y'\<close>: the answer is \<open>y\<close> or \<open>Y\<close>, the only two strings that
  \<open>str.lower\<close> maps to \<open>y\<close>.\<close>

definition is_yes :: "pystr \<Rightarrow> bool" where
  "is_yes answer = (answer = ascii ''y'' \<or> answer = ascii ''Y'')"

text \<open>
  What a run works on: the CSV file, the lines the operator still has to type (\<open>input()\<close>
  takes the next one and raises \<open>EOFError\<close> when there is none), and the number of calls
  of \<open>process_all_prompts\<close> made so far.  The remote service and the completion order are
  given per call: \<open>apis k i\<close> is the service as task \<open>i\<close> of call \<open>k\<close> meets it, and
  \<open>orders k n\<close> is the order in which the \<open>n\<close> tasks of call \<open>k\<close> complete.  What \<open>main\<close>
  prints is left out.
\<close>

record run_state =
  csv :: "table option"
  inputs :: "pystr list"
  dispatched :: nat

text \<open>
  The update of one row after a retry (the body of \<open>if result is not None\<close> in the retry
  loop of \<open>main\<close>): the row is \<open>failed_batch[i][0] - 1\<close>.  An index 0, which the loader
  never assigns, would make this \<open>-1\<close>, the last row.  Here the row is padded to the width
  of the header before the two columns are added to the header, so that the assignment
  of a cell can raise \<open>IndexError\<close>.
\<close>

definition retry_write :: "table option \<Rightarrow> nat \<Rightarrow> pystr \<Rightarrow> error + table" where
  "retry_write file idx result =
     (let (judgment, explanation) = split_result_lines result
      in case file of
           None \<Rightarrow> Inl FileNotFoundError
         | Some [] \<Rightarrow> Inl IndexError
         | Some (header # data_rows) \<Rightarrow>
             (let idx_in_csv = (if idx = 0 then length data_rows - 1 else idx - 1)
              in if data_rows = [] \<or> length data_rows \<le> idx_in_csv then Inl IndexError
                 else
                   (let row = pad_row (length header) (data_rows ! idx_in_csv);
                        header = ensure_columns header
                    in if index_of col_judgment header < length row
                          \<and> index_of col_explanation header < length row
                       then
                         Inr (header #
                              data_rows[idx_in_csv :=
                                row[index_of col_judgment header := or_empty judgment,
                                    index_of col_explanation header := or_empty explanation]])
                       else Inl IndexError)))"

text \<open>The retry loop \<open>for i, result in enumerate(retry_results)\<close>; each update reads and
  rewrites the file, so the updates made before an exception stay.\<close>

fun retry_writes ::
  "run_state \<Rightarrow> (nat \<times> pystr) list \<Rightarrow> pystr option list \<Rightarrow> run_state \<times> error option"
where
  "retry_writes st ((idx, sentence) # failed_batch) (result # retry_results) =
     (case result of
        None \<Rightarrow> retry_writes st failed_batch retry_results
      | Some text \<Rightarrow>
          (case retry_write (csv st) idx text of
             Inl e \<Rightarrow> (st, Some e)
           | Inr rows \<Rightarrow> retry_writes (st\<lparr>csv := Some rows\<rparr>) failed_batch retry_results))"
| "retry_writes st failed_batch retry_results = (st, None)"

text \<open>How one pass of the \<open>while\<close> loop ends.\<close>

datatype verdict = Raised error | Stopped | Next_batch

text \<open>
  One pass of the loop for the batch that starts at \<open>current_index\<close>: the prompts are built
  and dispatched, the results are written with \<open>offset = current_index\<close>, the operator is
  asked whether to retry the failed sentences if there are any, and whether to go on if
  sentences are left.
\<close>

definition main_batch ::
  "(nat \<Rightarrow> nat \<Rightarrow> remote) \<Rightarrow> (nat \<Rightarrow> nat \<Rightarrow> nat list) \<Rightarrow> pystr \<Rightarrow> (nat \<times> pystr) list \<Rightarrow> nat \<Rightarrow>
     run_state \<Rightarrow> run_state \<times> verdict"
where
  "main_batch apis orders template indexed_sentences current_index st =
     (let batch = take 10 (drop current_index indexed_sentences)
      in case build_prompts template batch of
           Inl e \<Rightarrow> (st, Raised e)
         | Inr prompts \<Rightarrow>
             (let results = explain_process_all_prompts (apis (dispatched st))
                              (orders (dispatched st) (length prompts)) prompts;
                  st = st\<lparr>dispatched := Suc (dispatched st)\<rparr>
              in case explain_write_results_to_csv (csv st) results current_index of
                   Inl e \<Rightarrow> (st, Raised e)
                 | Inr rows \<Rightarrow>
                     (let st = st\<lparr>csv := Some rows\<rparr>;
                          failed_indices = filter (\<lambda>i. results ! i = None) [0..<length results];
                          (st, raised) =
                            (if failed_indices \<noteq> [] then
                               (case inputs st of
                                  [] \<Rightarrow> (st, Some EOFError)
                                | retry_choice # rest \<Rightarrow>
                                    (let st = st\<lparr>inputs := rest\<rparr>
                                     in if is_yes retry_choice then
                                          (let failed_batch = map (\<lambda>i. batch ! i) failed_indices
                                           in case build_prompts template failed_batch of
                                                Inl e \<Rightarrow> (st, Some e)
                                              | Inr failed_prompts \<Rightarrow>
                                                  (let retry_results =
                                                         explain_process_all_prompts
                                                           (apis (dispatched st))
                                                           (orders (dispatched st)
                                                              (length failed_prompts))
                                                           failed_prompts;
                                                       st = st\<lparr>dispatched := Suc (dispatched st)\<rparr>
                                                   in retry_writes st failed_batch retry_results))
                                        else (st, None)))
                             else (st, None))
                      in case raised of
                           Some e \<Rightarrow> (st, Raised e)
                         | None \<Rightarrow>
                             if current_index + 10 < length indexed_sentences then
                               (case inputs st of
                                  [] \<Rightarrow> (st, Raised EOFError)
                                | cont # rest \<Rightarrow>
                                    if \<not> is_yes cont then (st\<lparr>inputs := rest\<rparr>, Stopped)
                                    else (st\<lparr>inputs := rest\<rparr>, Next_batch))
                             else (st, Next_batch))))"

text \<open>The loop \<open>while current_index < total\<close>.  The result is the state at the end and
  the exception that left \<open>main\<close>, if any.\<close>

function main_loop ::
  "(nat \<Rightarrow> nat \<Rightarrow> remote) \<Rightarrow> (nat \<Rightarrow> nat \<Rightarrow> nat list) \<Rightarrow> pystr \<Rightarrow> (nat \<times> pystr) list \<Rightarrow> nat \<Rightarrow>
     run_state \<Rightarrow> run_state \<times> error option"
where
  "main_loop apis orders template indexed_sentences current_index st =
     (if current_index < length indexed_sentences then
        (case main_batch apis orders template indexed_sentences current_index st of
           (st, Raised e) \<Rightarrow> (st, Some e)
         | (st, Stopped) \<Rightarrow> (st, None)
         | (st, Next_batch) \<Rightarrow>
             main_loop apis orders template indexed_sentences (current_index + 10) st)
      else (st, None))"
  by pat_completeness auto
termination
  by (relation "measure (\<lambda>(apis, orders, template, indexed_sentences, current_index, st).
        length indexed_sentences - current_index)") auto

declare main_loop.simps [simp del]

text \<open>\<open>main\<close>: the template file and the CSV file are read, then the loop runs.\<close>

definition main ::
  "(nat \<Rightarrow> nat \<Rightarrow> remote) \<Rightarrow> (nat \<Rightarrow> nat \<Rightarrow> nat list) \<Rightarrow> pystr option \<Rightarrow> run_state \<Rightarrow>
     run_state \<times> error option"
where
  "main apis orders template_file st =
     (case load_prompt_template template_file of
        Inl e \<Rightarrow> (st, Some e)
      | Inr template \<Rightarrow>
          (case load_sentences_from_csv (csv st) of
             Inl e \<Rightarrow> (st, Some e)
           | Inr indexed_sentences \<Rightarrow> main_loop apis orders template indexed_sentences 0 st))"

text \<open>For examples: every call answers with \<open>reply\<close>; the first call fails at every
  attempt and the later ones answer; the tasks complete in the order of submission.\<close>

definition always_answers :: "pystr \<Rightarrow> nat \<Rightarrow> nat \<Rightarrow> remote" where
  "always_answers reply k i = answers_with reply"

definition answers_on_retry :: "pystr \<Rightarrow> nat \<Rightarrow> nat \<Rightarrow> remote" where
  "answers_on_retry reply k i = (if k = 0 then always_server_error else answers_with reply)"

definition submission_order :: "nat \<Rightarrow> nat \<Rightarrow> nat list" where
  "submission_order k n = [0..<n]"

text \<open>A table whose first data row has an empty first cell: the header U+539F U+53E5,
  the row with the one cell \<open>""\<close>, and the row U+5929 U+6C14 U+5F88 U+597D U+3002.\<close>

definition skipped_row_table :: table where
  "skipped_row_table = [[[0x539F, 0x53E5]], [[]], [[0x5929, 0x6C14, 0x5F88, 0x597D, 0x3002]]]"

section \<open>Properties of the string operations\<close>

lemma str_of_nat_digit [simp]: "n < 10 \<Longrightarrow> str_of_nat n = [0x30 + n]"
  by (subst str_of_nat.simps) simp

section \<open>Properties of the Sentence Loader\<close>

lemma endswith_any_terminators:
  "endswith_any s terminators \<longleftrightarrow>
     (s \<noteq> [] \<and> last s \<in> set [0x3002, 0x2E, 0xFF01, 0x21, 0xFF1F, 0x3F])"
proof (cases s rule: rev_cases)
  case Nil
  then show ?thesis
    by (simp add: endswith_any_def terminators_def endswith_def ascii_def)
next
  case (snoc ys y)
  then show ?thesis
    by (auto simp add: endswith_any_def terminators_def endswith_def ascii_def)
qed

lemma load_rows_member:
  "(i, s) \<in> set (load_rows idx rows) \<longleftrightarrow>
     (\<exists>cell cells. idx \<le> i \<and> i < length rows + idx \<and> rows ! (i - idx) = cell # cells \<and>
        strip cell \<noteq> [] \<and>
        s = (if endswith_any (strip cell) terminators then strip cell
             else strip cell @ [0x3002]))"
proof (induction rows arbitrary: idx)
  case Nil
  then show ?case by simp
next
  case (Cons row rest)
  have nth: "(row # rest) ! (i - idx) = (if i = idx then row else rest ! (i - Suc idx))" if "idx \<le> i"
    using that by (cases "i = idx") (simp_all add: nth_Cons' )
  show ?case
  proof (cases "i = idx")
    case True
    then show ?thesis
      using Cons.IH [of "Suc idx"] by (auto simp add: Let_def split: list.splits)
  next
    case False
    then show ?thesis
      using Cons.IH [of "Suc idx"] nth by (auto simp add: Let_def split: list.splits)
  qed
qed

text \<open>
  C5.  Normalisation by the Sentence Loader.  Take the data row at position \<open>k\<close>
  (counted from 0 after the header) whose first cell, once trimmed, is not empty, so that
  the loader keeps the row.  The loader returns exactly one sentence with index \<open>k + 1\<close>:
  the trimmed cell itself when it ends in one of the six recognised terminators
  (U+3002, \<open>.\<close>, U+FF01, \<open>!\<close>, U+FF1F, \<open>?\<close>), and the trimmed cell followed by the default
  terminator U+3002 otherwise.
\<close>

theorem loader_normalization:
  assumes "k < length data" and "data ! k = cell # cells" and "strip cell \<noteq> []"
  shows "\<exists>out. load_sentences_from_csv (Some (header # data)) = Inr out \<and>
           (\<forall>s. (Suc k, s) \<in> set out \<longleftrightarrow>
                s = (if last (strip cell) \<in> set [0x3002, 0x2E, 0xFF01, 0x21, 0xFF1F, 0x3F]
                     then strip cell else strip cell @ [0x3002]))"
proof -
  have "(Suc k, s) \<in> set (load_rows 1 data) \<longleftrightarrow>
          s = (if last (strip cell) \<in> set [0x3002, 0x2E, 0xFF01, 0x21, 0xFF1F, 0x3F]
               then strip cell else strip cell @ [0x3002])" for s
    using assms by (simp add: load_rows_member endswith_any_terminators)
  then show ?thesis
    by (simp add: load_sentences_from_csv_def)
qed

text \<open>
  The theorem at the table of the spec's example, with blanks around the second
  sentence: header U+539F U+53E5, then U+5929 U+6C14 U+5F88 U+597D U+3002, then
  U+660E U+5929 between two spaces.  Row 2 lacks a terminator and gets U+3002.
\<close>

theorem loader_normalization_witness:
  "\<exists>out. load_sentences_from_csv
            (Some ([[0x539F, 0x53E5]] #
                   [[[0x5929, 0x6C14, 0x5F88, 0x597D, 0x3002]], [[0x20, 0x660E, 0x5929, 0x20]]]))
          = Inr out \<and>
         (\<forall>s. (Suc 1, s) \<in> set out \<longleftrightarrow> s = [0x660E, 0x5929, 0x3002])"
  using loader_normalization [of 1 "[[[0x5929, 0x6C14, 0x5F88, 0x597D, 0x3002]], [[0x20, 0x660E, 0x5929, 0x20]]]"
      "[0x20, 0x660E, 0x5929, 0x20]" "[]" "[[0x539F, 0x53E5]]"]
  by (simp add: strip_def lstrip_def rstrip_def isspace_def)

section \<open>Properties of the response parser\<close>

lemma split_nl_not_Nil: "split_nl s \<noteq> []"
  by (induction s) (auto split: list.splits)

lemma lstrip_Cons_space: "isspace c \<Longrightarrow> lstrip (c # s) = lstrip s"
  by (simp add: lstrip_def)

lemma strip_Cons_space: "isspace c \<Longrightarrow> strip (c # s) = strip s"
  by (simp add: strip_def lstrip_def)

lemma rstrip_snoc_space: "isspace c \<Longrightarrow> rstrip (s @ [c]) = rstrip s"
  by (simp add: rstrip_def)

lemma strip_snoc_space:
  assumes "isspace c"
  shows "strip (s @ [c]) = strip s"
proof (cases "\<forall>x\<in>set s. isspace x")
  case True
  then have a: "dropWhile isspace (s @ [c]) = []" and b: "dropWhile isspace s = []"
    using assms by (simp_all add: dropWhile_eq_Nil_conv)
  show ?thesis
    unfolding strip_def lstrip_def rstrip_def a b by simp
next
  case False
  then have a: "dropWhile isspace (s @ [c]) = dropWhile isspace s @ [c]"
    by (auto simp add: dropWhile_append1)
  show ?thesis
    unfolding strip_def lstrip_def rstrip_def a using assms by simp
qed

lemma strip_Nil: "strip [] = []"
  by (simp add: strip_def lstrip_def rstrip_def)


lemma nonblank_split_Cons_space:
  "isspace c \<Longrightarrow> nonblank (split_nl (c # s)) = nonblank (split_nl s)"
  using split_nl_not_Nil [of s]
  by (cases "split_nl s") (auto simp add: nonblank_def strip_Nil strip_Cons_space)

lemma nonblank_split_lstrip: "nonblank (split_nl (lstrip s)) = nonblank (split_nl s)"
proof (induction s)
  case Nil
  then show ?case by (simp add: lstrip_def)
next
  case (Cons c s)
  show ?case
  proof (cases "isspace c")
    case True
    then show ?thesis
      using Cons.IH nonblank_split_Cons_space [of c s] by (simp add: lstrip_def)
  next
    case False
    then show ?thesis by (simp add: lstrip_def)
  qed
qed

lemma split_nl_snoc:
  "split_nl (s @ [c]) =
     (if c = 0x0A then split_nl s @ [[]]
      else butlast (split_nl s) @ [last (split_nl s) @ [c]])"
  using split_nl_not_Nil
  by (induction s) (auto split: list.splits simp add: butlast_append)

lemma nonblank_append: "nonblank (xs @ ys) = nonblank xs @ nonblank ys"
  by (simp add: nonblank_def)

lemma nonblank_split_snoc_space:
  assumes "isspace c"
  shows "nonblank (split_nl (s @ [c])) = nonblank (split_nl s)"
proof (cases "c = 0x0A")
  case True
  then show ?thesis
    by (simp add: split_nl_snoc nonblank_append) (simp add: nonblank_def strip_Nil)
next
  case False
  have "split_nl s = butlast (split_nl s) @ [last (split_nl s)]"
    using split_nl_not_Nil by simp
  then have "nonblank (split_nl s) =
      nonblank (butlast (split_nl s)) @ nonblank [last (split_nl s)]"
    by (metis nonblank_append)
  moreover have "nonblank [last (split_nl s) @ [c]] = nonblank [last (split_nl s)]"
    using assms by (simp add: nonblank_def strip_snoc_space)
  ultimately show ?thesis
    using False by (simp add: split_nl_snoc nonblank_append)
qed

lemma nonblank_split_rev_dropWhile:
  "nonblank (split_nl (rev (dropWhile isspace r))) = nonblank (split_nl (rev r))"
proof (induction r)
  case Nil
  then show ?case by simp
next
  case (Cons c r)
  then show ?case
    by (cases "isspace c") (simp_all add: nonblank_split_snoc_space)
qed

lemma nonblank_split_strip: "nonblank (split_nl (strip s)) = nonblank (split_nl s)"
  unfolding strip_def rstrip_def
  by (simp add: nonblank_split_rev_dropWhile nonblank_split_lstrip)

lemma map_strip_filter: "map strip (filter (\<lambda>line. strip line \<noteq> []) pieces) = nonblank pieces"
  by (induction pieces) (simp_all add: nonblank_def)

text \<open>
  C6.  \<open>split_result_lines\<close> trims each line of the text and drops the blank ones.  If no
  line is left, judgment and explanation are both absent; otherwise the judgment is the
  first line left and the explanation is the other lines joined by line feeds, which is
  the empty string when only one line is left.  The lines are those of the text as
  given: trimming the whole text first, as the code does, changes nothing.
\<close>

theorem split_result_lines_contract:
  "split_result_lines text =
     (case filter (\<lambda>line. line \<noteq> []) (map strip (split_nl text)) of
        [] \<Rightarrow> (None, None)
      | judgment # others \<Rightarrow> (Some judgment, Some (join [0x0A] others)))"
proof -
  have "map strip (filter (\<lambda>line. strip line \<noteq> []) (split_nl (strip text)))
          = filter (\<lambda>line. line \<noteq> []) (map strip (split_nl text))"
    using nonblank_split_strip [of "text"] by (simp add: map_strip_filter nonblank_def)
  then show ?thesis
    by (cases "filter (\<lambda>line. line \<noteq> []) (map strip (split_nl text))")
       (auto simp add: split_result_lines_def Let_def split: list.splits)
qed

text \<open>The contract at the response U+9519, U+89E3 U+91CA B, U+7EED on three lines.\<close>

theorem split_result_lines_contract_witness:
  "split_result_lines [0x9519, 0x0A, 0x89E3, 0x91CA, 0x42, 0x0A, 0x7EED] =
     (Some [0x9519], Some [0x89E3, 0x91CA, 0x42, 0x0A, 0x7EED])"
  using split_result_lines_contract [of "[0x9519, 0x0A, 0x89E3, 0x91CA, 0x42, 0x0A, 0x7EED]"]
  by (simp add: strip_def lstrip_def rstrip_def isspace_def)

section \<open>Properties of the Retrying API Client\<close>





section \<open>Properties of the Batch Dispatcher\<close>










section \<open>Properties of \<open>clean_formatting\<close>\<close>

text \<open>A match of one of the patterns is never empty when no delimiter is: the test on
  the lengths in \<open>sub_delimited\<close> holds for every match.\<close>

lemma find_close_length:
  "find_close d s = Some (inner, rest) \<Longrightarrow> length rest \<le> length s"
  by (induction s arbitrary: inner)
     (auto split: if_splits option.splits intro: le_SucI)

lemma match_delimited_shorter:
  "[] \<notin> set ds \<Longrightarrow> match_delimited ds s = Some (inner, rest) \<Longrightarrow> length rest < length s"
proof (induction ds)
  case Nil
  then show ?case by simp
next
  case (Cons d ds)
  show ?case
  proof (cases "startswith s d \<and> find_close d (drop (length d) s) \<noteq> None")
    case True
    then have "find_close d (drop (length d) s) = Some (inner, rest)"
      using Cons.prems by auto
    then have "length rest \<le> length s - length d"
      using find_close_length by fastforce
    moreover have "take (length d) s = d"
      using True by (simp add: startswith_def)
    then have "length d = min (length s) (length d)"
      by (metis length_take)
    then have "length d \<le> length s"
      by simp
    moreover have "d \<noteq> []"
      using Cons.prems by auto
    ultimately show ?thesis
      by (cases d) auto
  next
    case False
    then show ?thesis
      using Cons by (auto split: option.splits if_splits)
  qed
qed

section \<open>Properties of the Prompt Builder\<close>

lemma format_from_literal:
  "0x7B \<notin> set pre \<Longrightarrow> 0x7D \<notin> set pre \<Longrightarrow>
     format_from st arg (pre @ rest) =
       (case format_from st arg rest of Inl e \<Rightarrow> Inl e | Inr out \<Rightarrow> Inr (pre @ out))"
  by (induction pre) (auto split: sum.splits)

lemma isdecimal_zero: "isdecimal 0x30"
  by (simp add: isdecimal_def decimal_value_def decimal_zeros_def)

lemma int_of_digits_zero: "int_of_digits [0x30] = 0"
  by (simp add: int_of_digits_def decimal_value_def decimal_zeros_def)

lemma format_from_index_0:
  "format_from Unnumbered arg (ascii ''{0}'' @ rest) =
     (case format_from Manual arg rest of Inl e \<Rightarrow> Inl e | Inr out \<Rightarrow> Inr (arg @ out))"
  using isdecimal_zero int_of_digits_zero
  by (simp add: ascii_def)

lemma format_from_automatic:
  "format_from Unnumbered arg (ascii ''{}'' @ rest) =
     (case format_from (Automatic 1) arg rest of Inl e \<Rightarrow> Inl e | Inr out \<Rightarrow> Inr (arg @ out))"
  by (simp add: ascii_def)

lemma format_literal:
  "0x7B \<notin> set template \<Longrightarrow> 0x7D \<notin> set template \<Longrightarrow> format_from st arg template = Inr template"
  using format_from_literal [of template st arg "[]"] by simp

lemma build_prompts_map:
  "(\<And>sentence. format template sentence = Inr (f sentence)) \<Longrightarrow>
     build_prompts template sentences = Inr (map (\<lambda>(idx, sentence). f sentence) sentences)"
  by (induction sentences) auto

text \<open>
  C7, as stated, fails in its first half: for the template \<open>abc\<close>, which has no
  placeholder, \<open>build_prompts\<close> raises nothing and returns the template itself as the
  prompt of the sentence.  \<open>str.format\<close> does not ask that a format string use its
  arguments, and the code has no check of its own.
\<close>

theorem build_prompts_no_template_error:
  "build_prompts (ascii ''abc'') [(1, [0x660E, 0x5929, 0x2E])] = Inr [ascii ''abc'']"
  by (simp add: format_def ascii_def)

text \<open>
  C7, amended.  For a template without braces, which therefore lacks the placeholder,
  \<open>build_prompts\<close> raises nothing and returns one copy of the template per sentence.  For
  a template made of text without braces around one placeholder \<open>{0}\<close> (or \<open>{}\<close>) it
  returns one prompt per sentence, in the order of the sentences: the template with the
  placeholder replaced by the sentence.
\<close>

theorem build_prompts_substitutes:
  assumes "0x7B \<notin> set pre" and "0x7D \<notin> set pre"
    and "0x7B \<notin> set post" and "0x7D \<notin> set post"
  shows "build_prompts (pre @ post) sentences
           = Inr (map (\<lambda>(idx, sentence). pre @ post) sentences) \<and>
         build_prompts (pre @ ascii ''{0}'' @ post) sentences
           = Inr (map (\<lambda>(idx, sentence). pre @ sentence @ post) sentences) \<and>
         build_prompts (pre @ ascii ''{}'' @ post) sentences
           = Inr (map (\<lambda>(idx, sentence). pre @ sentence @ post) sentences)"
proof -
  have "format (pre @ post) s = Inr (pre @ post)" for s
    using assms by (simp add: format_def format_literal)
  moreover have "format (pre @ ascii ''{0}'' @ post) s = Inr (pre @ s @ post)" for s
    using assms
    by (simp add: format_def format_from_literal format_from_index_0 format_literal)
  moreover have "format (pre @ ascii ''{}'' @ post) s = Inr (pre @ s @ post)" for s
    using assms
    by (simp add: format_def format_from_literal format_from_automatic format_literal)
  ultimately show ?thesis
    by (simp add: build_prompts_map)
qed

text \<open>The amended claim at the template of the example scenario and its two sentences.\<close>

theorem build_prompts_substitutes_witness:
  "build_prompts [0x5224, 0x65AD, 0xFF1A] scenario_sentences
     = Inr [[0x5224, 0x65AD, 0xFF1A], [0x5224, 0x65AD, 0xFF1A]] \<and>
   build_prompts scenario_template scenario_sentences
     = Inr [[0x5224, 0x65AD, 0xFF1A, 0x5929, 0x6C14, 0x5F88, 0x597D, 0x3002],
            [0x5224, 0x65AD, 0xFF1A, 0x660E, 0x5929, 0x2E]] \<and>
   build_prompts ([0x5224, 0x65AD, 0xFF1A] @ ascii ''{}'') scenario_sentences
     = Inr [[0x5224, 0x65AD, 0xFF1A, 0x5929, 0x6C14, 0x5F88, 0x597D, 0x3002],
            [0x5224, 0x65AD, 0xFF1A, 0x660E, 0x5929, 0x2E]]"
  using build_prompts_substitutes [of "[0x5224, 0x65AD, 0xFF1A]" "[]" scenario_sentences]
  by (simp add: scenario_template_def scenario_sentences_def)

section \<open>Properties of the failure log\<close>





section \<open>Properties of the CSV sink\<close>







section \<open>The failure-log scenario\<close>








section \<open>The failure log read back\<close>











lemma file_lines_line:
  "0x0A \<notin> set body \<Longrightarrow> 0x0D \<notin> set body \<Longrightarrow>
     file_lines current (body @ 0x0A # rest) = (current @ body @ [0x0A]) # file_lines [] rest"
  by (induction body arbitrary: current) auto













section \<open>Row alignment in \<open>main\<close> of \<open>ai_explain.py\<close>\<close>

lemma skipped_row_loaded:
  "load_sentences_from_csv (Some skipped_row_table)
     = Inr [(2, [0x5929, 0x6C14, 0x5F88, 0x597D, 0x3002])]"
  by (simp add: load_sentences_from_csv_def skipped_row_table_def
      strip_def lstrip_def rstrip_def isspace_def endswith_any_terminators)

lemma scenario_template_loaded:
  "load_prompt_template (Some (scenario_template @ [0x0A])) = Inr scenario_template"
proof -
  have "0x0A \<notin> set scenario_template" and "0x0D \<notin> set scenario_template"
    by (simp_all add: scenario_template_def ascii_def)
  from file_lines_line [OF this, of "[]" "[]"]
  have "file_lines [] (scenario_template @ [0x0A]) = [scenario_template @ [0x0A]]"
    by simp
  moreover have "strip (scenario_template @ [0x0A]) = scenario_template"
    by (simp add: scenario_template_def ascii_def strip_def lstrip_def rstrip_def isspace_def)
  ultimately show ?thesis
    by (simp add: load_prompt_template_def)
qed

lemma scenario_format:
  "format scenario_template sentence = Inr ([0x5224, 0x65AD, 0xFF1A] @ sentence)"
  unfolding format_def scenario_template_def
  using format_from_literal [of "[0x5224, 0x65AD, 0xFF1A]" Unnumbered sentence "ascii ''{0}'' @ []"]
    format_from_index_0 [of sentence "[]"]
  by simp

lemma one_task_answers:
  "explain_process_all_prompts (\<lambda>i. answers_with reply) [0] [prompt]
     = [Some (clean_formatting reply)]"
  by (simp add: explain_process_all_prompts_def explain_process_prompt_with_retry_def
      answers_with_def upt_rec)

lemma one_task_fails:
  "explain_process_all_prompts (\<lambda>i. always_server_error) [0] [prompt] = [None]"
  by (simp add: explain_process_all_prompts_def explain_process_prompt_with_retry_def
      always_server_error_def upt_rec)

lemma reply_clean: "clean_formatting [0x5BF9, 0x0A, 0x89E3, 0x91CA, 0x41]
      = [0x5BF9, 0x0A, 0x89E3, 0x91CA, 0x41]"
  by (simp add: clean_formatting_def ascii_def startswith_def)

lemma reply_parsed: "split_result_lines [0x5BF9, 0x0A, 0x89E3, 0x91CA, 0x41]
      = (Some [0x5BF9], Some [0x89E3, 0x91CA, 0x41])"
  by (simp add: split_result_lines_def strip_def lstrip_def rstrip_def isspace_def)

lemma columns_added:
  "ensure_columns [[0x539F, 0x53E5]] = [[0x539F, 0x53E5], col_judgment, col_explanation]"
  "index_of col_judgment [[0x539F, 0x53E5], col_judgment, col_explanation] = 1"
  "index_of col_explanation [[0x539F, 0x53E5], col_judgment, col_explanation] = 2"
  "ensure_columns [[0x539F, 0x53E5], col_judgment, col_explanation]
     = [[0x539F, 0x53E5], col_judgment, col_explanation]"
  by (simp_all add: ensure_columns_def index_of_def col_judgment_def col_explanation_def
      ascii_def)

lemma always_answers_call: "always_answers reply k = (\<lambda>i. answers_with reply)"
  by (simp add: fun_eq_iff always_answers_def)

text \<open>
  C1 does not hold for \<open>main\<close> of \<open>ai_explain.py\<close>.  The table has a first data row with
  an empty first cell, which the loader skips, so the one sentence that is loaded has
  index 2.  The batch is written with \<open>offset = current_index = 0\<close>: the result goes to
  \<open>data_rows[0 + 0]\<close>, the skipped row, and the row of the sentence (data row
  \<open>index - 1 = 1\<close>) gets nothing.
\<close>

theorem main_skipped_row_misplaces_result:
  "load_sentences_from_csv (Some skipped_row_table)
     = Inr [(2, [0x5929, 0x6C14, 0x5F88, 0x597D, 0x3002])] \<and>
   main (always_answers [0x5BF9, 0x0A, 0x89E3, 0x91CA, 0x41]) submission_order
        (Some (scenario_template @ [0x0A]))
        \<lparr>csv = Some skipped_row_table, inputs = [], dispatched = 0\<rparr>
     = (\<lparr>csv = Some [[[0x539F, 0x53E5], col_judgment, col_explanation],
                      [[], [0x5BF9], [0x89E3, 0x91CA, 0x41]],
                      [[0x5929, 0x6C14, 0x5F88, 0x597D, 0x3002]]],
         inputs = [], dispatched = 1\<rparr>, None)"
proof -
  have batch: "main_batch (always_answers [0x5BF9, 0x0A, 0x89E3, 0x91CA, 0x41]) submission_order
        scenario_template [(2, [0x5929, 0x6C14, 0x5F88, 0x597D, 0x3002])] 0
        \<lparr>csv = Some skipped_row_table, inputs = [], dispatched = 0\<rparr>
     = (\<lparr>csv = Some [[[0x539F, 0x53E5], col_judgment, col_explanation],
                      [[], [0x5BF9], [0x89E3, 0x91CA, 0x41]],
                      [[0x5929, 0x6C14, 0x5F88, 0x597D, 0x3002]]],
         inputs = [], dispatched = 1\<rparr>, Next_batch)"
    unfolding main_batch_def
    by (simp add: scenario_format always_answers_call submission_order_def one_task_answers
        reply_clean explain_write_results_to_csv_def skipped_row_table_def columns_added
        reply_parsed pad_row_def or_empty_def upt_rec Let_def)
  have loop: "main_loop (always_answers [0x5BF9, 0x0A, 0x89E3, 0x91CA, 0x41]) submission_order
        scenario_template [(2, [0x5929, 0x6C14, 0x5F88, 0x597D, 0x3002])] 0
        \<lparr>csv = Some skipped_row_table, inputs = [], dispatched = 0\<rparr>
     = (\<lparr>csv = Some [[[0x539F, 0x53E5], col_judgment, col_explanation],
                      [[], [0x5BF9], [0x89E3, 0x91CA, 0x41]],
                      [[0x5929, 0x6C14, 0x5F88, 0x597D, 0x3002]]],
         inputs = [], dispatched = 1\<rparr>, None)"
    by (subst main_loop.simps, subst batch, subst main_loop.simps, simp)
  show ?thesis
    by (simp add: main_def scenario_template_loaded skipped_row_loaded loop)
qed


text \<open>
  The retry branch of the same \<open>main\<close> uses \<open>failed_batch[i][0] - 1\<close> instead: when the
  first call fails and the operator answers \<open>y\<close>, the result of the retry goes to the row
  of the sentence.
\<close>

lemma answers_on_retry_call:
  "answers_on_retry reply 0 = (\<lambda>i. always_server_error)"
  "answers_on_retry reply (Suc k) = (\<lambda>i. answers_with reply)"
  by (simp_all add: fun_eq_iff answers_on_retry_def)

lemma main_retry_writes_own_row:
  "main (answers_on_retry [0x5BF9, 0x0A, 0x89E3, 0x91CA, 0x41]) submission_order
        (Some (scenario_template @ [0x0A]))
        \<lparr>csv = Some skipped_row_table, inputs = [ascii ''y''], dispatched = 0\<rparr>
     = (\<lparr>csv = Some [[[0x539F, 0x53E5], col_judgment, col_explanation],
                      [[]],
                      [[0x5929, 0x6C14, 0x5F88, 0x597D, 0x3002], [0x5BF9], [0x89E3, 0x91CA, 0x41]]],
         inputs = [], dispatched = 2\<rparr>, None)"
proof -
  have row_written: "retry_write
        (Some [[[0x539F, 0x53E5], col_judgment, col_explanation], [[]],
               [[0x5929, 0x6C14, 0x5F88, 0x597D, 0x3002]]])
        2 [0x5BF9, 0x0A, 0x89E3, 0x91CA, 0x41]
     = Inr [[[0x539F, 0x53E5], col_judgment, col_explanation], [[]],
            [[0x5929, 0x6C14, 0x5F88, 0x597D, 0x3002], [0x5BF9], [0x89E3, 0x91CA, 0x41]]]"
    by (simp add: retry_write_def reply_parsed columns_added pad_row_def or_empty_def)
  have batch: "main_batch (answers_on_retry [0x5BF9, 0x0A, 0x89E3, 0x91CA, 0x41]) submission_order
        scenario_template [(2, [0x5929, 0x6C14, 0x5F88, 0x597D, 0x3002])] 0
        \<lparr>csv = Some skipped_row_table, inputs = [ascii ''y''], dispatched = 0\<rparr>
     = (\<lparr>csv = Some [[[0x539F, 0x53E5], col_judgment, col_explanation],
                      [[]],
                      [[0x5929, 0x6C14, 0x5F88, 0x597D, 0x3002], [0x5BF9], [0x89E3, 0x91CA, 0x41]]],
         inputs = [], dispatched = 2\<rparr>, Next_batch)"
    unfolding main_batch_def
    by (simp add: scenario_format answers_on_retry_call submission_order_def one_task_answers
        one_task_fails reply_clean explain_write_results_to_csv_def skipped_row_table_def
        columns_added row_written is_yes_def upt_rec Let_def)
  have loop: "main_loop (answers_on_retry [0x5BF9, 0x0A, 0x89E3, 0x91CA, 0x41]) submission_order
        scenario_template [(2, [0x5929, 0x6C14, 0x5F88, 0x597D, 0x3002])] 0
        \<lparr>csv = Some skipped_row_table, inputs = [ascii ''y''], dispatched = 0\<rparr>
     = (\<lparr>csv = Some [[[0x539F, 0x53E5], col_judgment, col_explanation],
                      [[]],
                      [[0x5929, 0x6C14, 0x5F88, 0x597D, 0x3002], [0x5BF9], [0x89E3, 0x91CA, 0x41]]],
         inputs = [], dispatched = 2\<rparr>, None)"
    by (subst main_loop.simps, subst batch, subst main_loop.simps, simp)
  show ?thesis
    by (simp add: main_def scenario_template_loaded skipped_row_loaded loop)
qed

end
